theory Spec2Isabelle
  imports Complex_Main
begin

section \<open>The object model of \<^verbatim>\<open>src/core/input.ts\<close>\<close>

text \<open>
  An Input is a JavaScript object that refers to other objects: the fields of its row, its
  connection and the block that owns it. The methods of Input mutate those objects in place
  (\<^verbatim>\<open>field.name = opt_name\<close>, \<^verbatim>\<open>child.rendered = false\<close>), and the same Field object may
  be reachable along several paths (as a row entry and as another field's
  \<^verbatim>\<open>prefixField\<close>). The objects therefore live in a store, one map from addresses to
  records per class, and a reference is an address. Every address holds an object: a
  JavaScript reference never dangles.
\<close>

subsection \<open>Values\<close>

text \<open>
  Modelled from the spec: the enum \<^verbatim>\<open>ConnectionType\<close> is imported from
  \<^verbatim>\<open>./constants\<close>, which is not among the sources. The spec gives an Input's kind as one of
  ValueInput, StatementInput, DummyInput; the constructor only compares the kind with
  \<^verbatim>\<open>ConnectionType.DummyInput\<close>.
\<close>

datatype ConnectionType = ValueInput | StatementInput | DummyInput

text \<open>
  Modelled from the spec: the alignment constants \<^verbatim>\<open>Blockly.ALIGN_LEFT\<close>,
  \<^verbatim>\<open>ALIGN_CENTRE\<close>, \<^verbatim>\<open>ALIGN_RIGHT\<close> are defined outside the sources.
\<close>

datatype Alignment = ALIGN_LEFT | ALIGN_CENTRE | ALIGN_RIGHT

text \<open>Everything the modelled code throws.\<close>

datatype error =
    EmptyName  \<comment> \<open>\<^verbatim>\<open>throw 'Value inputs and statement inputs must have non-empty name.'\<close>\<close>
  | IndexOutOfBounds  \<comment> \<open>\<^verbatim>\<open>throw new Error('index ' + index + ' out of bounds.')\<close>\<close>
  | FieldNotFound  \<comment> \<open>\<^verbatim>\<open>goog.asserts.fail('Field "%s" not found.', name)\<close>\<close>
  | NoConnection  \<comment> \<open>\<^verbatim>\<open>throw 'This input does not have a connection.'\<close>\<close>
  | TypeError  \<comment> \<open>a property read or a method call on \<^verbatim>\<open>null\<close> or \<^verbatim>\<open>undefined\<close>\<close>
  | StackOverflow  \<comment> \<open>the RangeError of a recursion that exceeds the call stack\<close>

text \<open>
  The \<^verbatim>\<open>field\<close> argument of \<^verbatim>\<open>insertFieldAt\<close> has type \<^verbatim>\<open>string|!Blockly.Field\<close>, and
  the code also tests for \<^verbatim>\<open>null\<close> and \<^verbatim>\<open>undefined\<close>. A field's \<^verbatim>\<open>prefixField\<close> and
  \<^verbatim>\<open>suffixField\<close> are passed to \<^verbatim>\<open>insertFieldAt\<close> as that argument, so they have the same
  type.
\<close>

datatype field_arg = FUndefined | FString string | FField nat

text \<open>JavaScript's truthiness on these values: \<^verbatim>\<open>!field\<close> is \<open>\<not> truthy field\<close>.\<close>

fun truthy :: "field_arg \<Rightarrow> bool" where
  "truthy FUndefined = False"
| "truthy (FString t) = (t \<noteq> [])"
| "truthy (FField f) = True"

text \<open>\<^verbatim>\<open>opt_name\<close> is a string or \<^verbatim>\<open>undefined\<close>; the empty string is falsy too.\<close>

fun name_truthy :: "string option \<Rightarrow> bool" where
  "name_truthy None = False"
| "name_truthy (Some t) = (t \<noteq> [])"

text \<open>
  A row index is a JavaScript number. The model has the integers and \<^verbatim>\<open>NaN\<close>; \<^verbatim>\<open>NaN\<close> is
  what an object turns into where a number is expected.
\<close>

datatype jsnum = Num int | NaN

text \<open>
  What \<^verbatim>\<open>insertFieldAt\<close> returns: a number on its last line, the Input itself
  (\<^verbatim>\<open>return this\<close>) on line 113.
\<close>

datatype retval = RetIndex jsnum | RetThis nat

text \<open>The \<^verbatim>\<open>check\<close> argument of \<^verbatim>\<open>setCheck\<close>: \<^verbatim>\<open>string|Array.<string>|null\<close>.\<close>

datatype check_arg = CheckNull | CheckString string | CheckArray "string list"

subsection \<open>Objects\<close>

text \<open>
  The class Field is not among the sources. Input reads and writes three of its
  properties, \<^verbatim>\<open>name\<close>, \<^verbatim>\<open>prefixField\<close> and \<^verbatim>\<open>suffixField\<close>, and calls four of its
  methods. Modelled from the spec: \<^verbatim>\<open>setSourceBlock(block)\<close> binds the field to the block,
  \<^verbatim>\<open>init()\<close> initialises it, \<^verbatim>\<open>setVisible(bool)\<close> sets its visibility flag and
  \<^verbatim>\<open>dispose()\<close> disposes it; the model records the bound block and the flag and counts the
  calls of the other two.
\<close>

record Field =
  name :: "string option"
  prefixField :: field_arg
  suffixField :: field_arg
  labelText :: string
  fieldSourceBlock :: "nat option"
  fieldVisible :: bool
  fieldInitCalls :: nat
  fieldDisposeCalls :: nat

text \<open>
  The class Connection is not among the sources. Modelled from the spec:
  \<^verbatim>\<open>setCheck(types)\<close> replaces the accepted-type set, \<^verbatim>\<open>hideAll()\<close> and \<^verbatim>\<open>unhideAll()\<close>
  hide and reveal the connection and what lies beneath it, \<^verbatim>\<open>unhideAll()\<close> returning the
  blocks to render, \<^verbatim>\<open>targetBlock()\<close> is the linked child block or none, and
  \<^verbatim>\<open>dispose()\<close> disposes the connection. What \<^verbatim>\<open>unhideAll()\<close> returns is decided outside
  Input, so it is a component of the connection here.
\<close>

record Connection =
  check :: check_arg
  targetBlock :: "nat option"
  unhideAllResult :: "nat list"
  hideAllCalls :: nat
  unhideAllCalls :: nat
  connectionDisposeCalls :: nat

text \<open>
  The class Block is not among the sources. Input reads and writes its \<^verbatim>\<open>rendered\<close> flag,
  calls \<^verbatim>\<open>render()\<close> and \<^verbatim>\<open>bumpNeighbours_()\<close> (counted here) and sets
  \<^verbatim>\<open>getSvgRoot().style.display\<close>.
\<close>

record Block =
  rendered :: bool
  display :: string
  renderCalls :: nat
  bumpNeighboursCalls :: nat

text \<open>
  The members of Input. The constructor's parameter properties are \<^verbatim>\<open>type\<close>, \<^verbatim>\<open>name\<close>,
  \<^verbatim>\<open>sourceBlock\<close> and \<^verbatim>\<open>connection\<close>; the methods read and clear the owning block as
  \<^verbatim>\<open>sourceBlock_\<close>. Both members are kept, as the source has them. A name cannot end
  in an underscore here: \<^verbatim>\<open>sourceBlock_\<close> is \<open>sourceBlock'\<close> and \<^verbatim>\<open>visible_\<close> is
  \<open>visible'\<close>.
\<close>

record Input =
  inputType :: ConnectionType
  inputName :: string
  sourceBlock :: nat
  connection :: "nat option"
  fieldRow :: "nat list"
  outlinePath :: "nat option"
  align :: Alignment
  visible' :: bool
  sourceBlock' :: "nat option"

text \<open>
  The store. \<open>nextField\<close> is the address that the next \<^verbatim>\<open>new Blockly.FieldLabel\<close> gets;
  \<open>removedNodes\<close> lists the DOM nodes handed to \<^verbatim>\<open>goog.dom.removeNode\<close>.
\<close>

record world =
  inputHeap :: "nat \<Rightarrow> Input"
  fieldHeap :: "nat \<Rightarrow> Field"
  nextField :: nat
  connectionHeap :: "nat \<Rightarrow> Connection"
  blockHeap :: "nat \<Rightarrow> Block"
  removedNodes :: "nat list"

section \<open>The constructor\<close>

text \<open>
  \<^verbatim>\<open>if (type !== ConnectionType.DummyInput && !name) throw ...\<close>; the field initialisers
  give an empty row and no outline, the prototype gives left alignment and visibility.
  The constructor does not assign \<^verbatim>\<open>sourceBlock_\<close>.
\<close>

definition Input_new :: "ConnectionType \<Rightarrow> string \<Rightarrow> nat \<Rightarrow> nat option \<Rightarrow> error + Input" where
  "Input_new type name' block connection' =
     (if type \<noteq> DummyInput \<and> name' = [] then Inl EmptyName
      else Inr \<lparr>inputType = type, inputName = name', sourceBlock = block,
                connection = connection', fieldRow = [], outlinePath = None,
                align = ALIGN_LEFT, visible' = True, sourceBlock' = None\<rparr>)"

section \<open>The collaborators\<close>

text \<open>
  Modelled from the spec: the methods of Field, Connection and Block that Input calls, and
  \<^verbatim>\<open>goog.dom.removeNode\<close>; none of them is among the sources. Each one updates the object
  it is called on, as described with the records above, and nothing else.
\<close>

definition Field_setSourceBlock :: "world \<Rightarrow> nat \<Rightarrow> nat option \<Rightarrow> world" where
  "Field_setSourceBlock s f b =
     s\<lparr>fieldHeap := (fieldHeap s)(f := (fieldHeap s f)\<lparr>fieldSourceBlock := b\<rparr>)\<rparr>"

definition Field_init :: "world \<Rightarrow> nat \<Rightarrow> world" where
  "Field_init s f =
     s\<lparr>fieldHeap := (fieldHeap s)
        (f := (fieldHeap s f)\<lparr>fieldInitCalls := Suc (fieldInitCalls (fieldHeap s f))\<rparr>)\<rparr>"

definition Field_setVisible :: "world \<Rightarrow> nat \<Rightarrow> bool \<Rightarrow> world" where
  "Field_setVisible s f v =
     s\<lparr>fieldHeap := (fieldHeap s)(f := (fieldHeap s f)\<lparr>fieldVisible := v\<rparr>)\<rparr>"

definition Field_dispose :: "world \<Rightarrow> nat \<Rightarrow> world" where
  "Field_dispose s f =
     s\<lparr>fieldHeap := (fieldHeap s)
        (f := (fieldHeap s f)\<lparr>fieldDisposeCalls := Suc (fieldDisposeCalls (fieldHeap s f))\<rparr>)\<rparr>"

text \<open>
  Modelled from the spec: \<^verbatim>\<open>new Blockly.FieldLabel(text)\<close>, the read-only label Field that
  a plain string is converted to. The new object takes the next free address; it has no
  name, no prefix and no suffix.
\<close>

definition new_FieldLabel :: "world \<Rightarrow> string \<Rightarrow> world \<times> nat" where
  "new_FieldLabel s t =
     (s\<lparr>fieldHeap := (fieldHeap s)
         (nextField s := \<lparr>name = None, prefixField = FUndefined, suffixField = FUndefined,
                          labelText = t, fieldSourceBlock = None, fieldVisible = True,
                          fieldInitCalls = 0, fieldDisposeCalls = 0\<rparr>),
        nextField := Suc (nextField s)\<rparr>,
      nextField s)"

definition Block_render :: "world \<Rightarrow> nat \<Rightarrow> world" where
  "Block_render s b =
     s\<lparr>blockHeap := (blockHeap s)
        (b := (blockHeap s b)\<lparr>renderCalls := Suc (renderCalls (blockHeap s b))\<rparr>)\<rparr>"

definition Block_bumpNeighbours :: "world \<Rightarrow> nat \<Rightarrow> world" where
  "Block_bumpNeighbours s b =
     s\<lparr>blockHeap := (blockHeap s)
        (b := (blockHeap s b)\<lparr>bumpNeighboursCalls := Suc (bumpNeighboursCalls (blockHeap s b))\<rparr>)\<rparr>"

definition Connection_setCheck :: "world \<Rightarrow> nat \<Rightarrow> check_arg \<Rightarrow> world" where
  "Connection_setCheck s c chk =
     s\<lparr>connectionHeap := (connectionHeap s)(c := (connectionHeap s c)\<lparr>check := chk\<rparr>)\<rparr>"

definition Connection_hideAll :: "world \<Rightarrow> nat \<Rightarrow> world" where
  "Connection_hideAll s c =
     s\<lparr>connectionHeap := (connectionHeap s)
        (c := (connectionHeap s c)\<lparr>hideAllCalls := Suc (hideAllCalls (connectionHeap s c))\<rparr>)\<rparr>"

definition Connection_unhideAll :: "world \<Rightarrow> nat \<Rightarrow> world \<times> nat list" where
  "Connection_unhideAll s c =
     (s\<lparr>connectionHeap := (connectionHeap s)
         (c := (connectionHeap s c)\<lparr>unhideAllCalls := Suc (unhideAllCalls (connectionHeap s c))\<rparr>)\<rparr>,
      unhideAllResult (connectionHeap s c))"

definition Connection_dispose :: "world \<Rightarrow> nat \<Rightarrow> world" where
  "Connection_dispose s c =
     s\<lparr>connectionHeap := (connectionHeap s)
        (c := (connectionHeap s c)
           \<lparr>connectionDisposeCalls := Suc (connectionDisposeCalls (connectionHeap s c))\<rparr>)\<rparr>"

definition removeNode :: "world \<Rightarrow> nat \<Rightarrow> world" where
  "removeNode s node = s\<lparr>removedNodes := removedNodes s @ [node]\<rparr>"

section \<open>Field-row management\<close>

subsection \<open>Array and number primitives\<close>

text \<open>\<^verbatim>\<open>index < 0 || index > this.fieldRow.length\<close>; a comparison with \<^verbatim>\<open>NaN\<close> is false.\<close>

fun index_out_of_bounds :: "jsnum \<Rightarrow> nat \<Rightarrow> bool" where
  "index_out_of_bounds (Num k) len = (k < 0 \<or> k > int len)"
| "index_out_of_bounds NaN len = False"

text \<open>
  The start position of \<^verbatim>\<open>Array.prototype.splice(start, ...)\<close>: \<^verbatim>\<open>NaN\<close> counts as 0, a
  negative start counts from the end, and the result is clamped to the array.
\<close>

fun splice_start :: "jsnum \<Rightarrow> nat \<Rightarrow> nat" where
  "splice_start NaN len = 0"
| "splice_start (Num k) len =
     (if k < 0 then nat (max (int len + k) 0) else nat (min k (int len)))"

text \<open>\<^verbatim>\<open>xs.splice(index, 0, x)\<close> and \<^verbatim>\<open>xs.splice(i, 1)\<close>.\<close>

definition splice_insert :: "'a list \<Rightarrow> jsnum \<Rightarrow> 'a \<Rightarrow> 'a list" where
  "splice_insert xs index x =
     take (splice_start index (length xs)) xs @ x # drop (splice_start index (length xs)) xs"

definition splice_remove :: "'a list \<Rightarrow> nat \<Rightarrow> 'a list" where
  "splice_remove xs i = take i xs @ drop (Suc i) xs"

text \<open>\<^verbatim>\<open>++index\<close>.\<close>

fun increment :: "jsnum \<Rightarrow> jsnum" where
  "increment (Num k) = Num (k + 1)"
| "increment NaN = NaN"

text \<open>
  \<^verbatim>\<open>index = this.insertFieldAt(...)\<close> stores whatever the call returned. The two uses of
  \<^verbatim>\<open>index\<close> that follow, \<^verbatim>\<open>splice\<close> and \<^verbatim>\<open>++\<close>, convert it to a number, and an Input
  object converts to \<^verbatim>\<open>NaN\<close>.
\<close>

fun to_number :: "retval \<Rightarrow> jsnum" where
  "to_number (RetIndex j) = j"
| "to_number (RetThis i) = NaN"

text \<open>
  \<^verbatim>\<open>if (goog.isString(field)) field = new Blockly.FieldLabel(field)\<close>.
\<close>

fun generate_label :: "world \<Rightarrow> field_arg \<Rightarrow> world \<times> field_arg" where
  "generate_label s (FString t) = (case new_FieldLabel s t of (s', l) \<Rightarrow> (s', FField l))"
| "generate_label s FUndefined = (s, FUndefined)"
| "generate_label s (FField f) = (s, FField f)"

definition set_fieldRow :: "world \<Rightarrow> nat \<Rightarrow> nat list \<Rightarrow> world" where
  "set_fieldRow s this row =
     s\<lparr>inputHeap := (inputHeap s)(this := (inputHeap s this)\<lparr>fieldRow := row\<rparr>)\<rparr>"

definition set_name :: "world \<Rightarrow> nat \<Rightarrow> string option \<Rightarrow> world" where
  "set_name s f n = s\<lparr>fieldHeap := (fieldHeap s)(f := (fieldHeap s f)\<lparr>name := n\<rparr>)\<rparr>"

subsection \<open>\<^verbatim>\<open>insertFieldAt\<close> and \<^verbatim>\<open>appendField\<close>\<close>

text \<open>
  \<^verbatim>\<open>insertFieldAt\<close> calls itself on the field's prefix and suffix, which are read from
  the store and may lead back to the field: the recursion need not end. The first argument
  bounds the depth of the call stack; a call that would exceed it throws, as the
  JavaScript engine does. A method that throws leaves the store as it was at that moment,
  so the store is returned in both cases.
\<close>

fun insertFieldAt ::
  "nat \<Rightarrow> world \<Rightarrow> nat \<Rightarrow> jsnum \<Rightarrow> field_arg \<Rightarrow> string option \<Rightarrow> world \<times> (error + retval)"
where
  "insertFieldAt 0 s this index field opt_name = (s, Inl StackOverflow)"
| "insertFieldAt (Suc depth) s this index field opt_name =
     (if index_out_of_bounds index (length (fieldRow (inputHeap s this)))
      then (s, Inl IndexOutOfBounds)
      else if \<not> truthy field \<and> \<not> name_truthy opt_name
      then (s, Inr (RetThis this))
      else
        (case generate_label s field of
          (s0, FField f) \<Rightarrow>
            (let s1 = Field_setSourceBlock s0 f (sourceBlock' (inputHeap s0 this)) in
             case sourceBlock' (inputHeap s1 this) of
               None \<Rightarrow> (s1, Inl TypeError)
             | Some b \<Rightarrow>
                (let s2 = (if rendered (blockHeap s1 b) then Field_init s1 f else s1);
                     s3 = set_name s2 f opt_name
                 in case (if truthy (prefixField (fieldHeap s3 f))
                          then insertFieldAt depth s3 this index (prefixField (fieldHeap s3 f)) None
                          else (s3, Inr (RetIndex index))) of
                      (s4, Inl e) \<Rightarrow> (s4, Inl e)
                    | (s4, Inr r1) \<Rightarrow>
                       (let s5 = set_fieldRow s4 this
                                   (splice_insert (fieldRow (inputHeap s4 this)) (to_number r1) f);
                            index2 = increment (to_number r1)
                        in case (if truthy (suffixField (fieldHeap s5 f))
                                 then insertFieldAt depth s5 this index2
                                        (suffixField (fieldHeap s5 f)) None
                                 else (s5, Inr (RetIndex index2))) of
                             (s6, Inl e) \<Rightarrow> (s6, Inl e)
                           | (s6, Inr r2) \<Rightarrow>
                              (case sourceBlock' (inputHeap s6 this) of
                                 None \<Rightarrow> (s6, Inl TypeError)
                               | Some b' \<Rightarrow>
                                  (if rendered (blockHeap s6 b')
                                   then (Block_bumpNeighbours (Block_render s6 b') b', Inr r2)
                                   else (s6, Inr r2))))))
        | (s0, _) \<Rightarrow> (s0, Inl TypeError)))"

declare insertFieldAt.simps(2) [simp del]


subsection \<open>\<^verbatim>\<open>removeField\<close>\<close>

text \<open>
  \<^verbatim>\<open>for (var i = 0, field; field = this.fieldRow[i]; i++)\<close>: the row holds object
  references, which are truthy, so the loop ends when \<open>i\<close> reaches the length of the row
  (where \<^verbatim>\<open>this.fieldRow[i]\<close> is \<^verbatim>\<open>undefined\<close>) or at the \<^verbatim>\<open>return\<close> inside. The
  parameter \<^verbatim>\<open>name\<close> is a string, and \<^verbatim>\<open>===\<close> compares it with a name that may be
  \<^verbatim>\<open>undefined\<close>.
\<close>

function removeField_loop :: "world \<Rightarrow> nat \<Rightarrow> string \<Rightarrow> nat \<Rightarrow> world \<times> (error + unit)" where
  "removeField_loop s this name' i =
     (if i < length (fieldRow (inputHeap s this)) then
        (let field = fieldRow (inputHeap s this) ! i in
         if name (fieldHeap s field) = Some name' then
           (let s1 = Field_dispose s field;
                s2 = set_fieldRow s1 this (splice_remove (fieldRow (inputHeap s1 this)) i)
            in case sourceBlock' (inputHeap s2 this) of
                 None \<Rightarrow> (s2, Inl TypeError)
               | Some b \<Rightarrow>
                  (if rendered (blockHeap s2 b)
                   then (Block_bumpNeighbours (Block_render s2 b) b, Inr ())
                   else (s2, Inr ())))
         else removeField_loop s this name' (Suc i))
      else (s, Inl FieldNotFound))"
  by pat_completeness auto
termination
  by (relation "measure (\<lambda>(s, this, name', i). length (fieldRow (inputHeap s this)) - i)") auto

definition removeField :: "world \<Rightarrow> nat \<Rightarrow> string \<Rightarrow> world \<times> (error + unit)" where
  "removeField s this name' = removeField_loop s this name' 0"

declare removeField_loop.simps [simp del]

text \<open>
  The position of the first field of the row whose name is \<open>nm\<close>, or the length of the row
  when no field has that name. It is what the theorem about \<^verbatim>\<open>removeField\<close> compares
  the loop with.
\<close>

definition first_named :: "world \<Rightarrow> nat \<Rightarrow> string \<Rightarrow> nat" where
  "first_named s this nm =
     length (takeWhile (\<lambda>f. name (fieldHeap s f) \<noteq> Some nm) (fieldRow (inputHeap s this)))"

section \<open>Visibility, connection configuration and disposal\<close>

text \<open>
  The loops over the row in \<^verbatim>\<open>setVisible\<close> and \<^verbatim>\<open>dispose\<close> call a method of each field
  in row order. Those methods do not touch the row, so the loop is a fold over the row as
  it is when the loop starts.
\<close>

definition setVisible :: "world \<Rightarrow> nat \<Rightarrow> bool \<Rightarrow> world \<times> nat list" where
  "setVisible s this visible =
     (if visible' (inputHeap s this) = visible then (s, [])
      else
        (let s1 = s\<lparr>inputHeap := (inputHeap s)(this := (inputHeap s this)\<lparr>visible' := visible\<rparr>)\<rparr>;
             display' = (if visible then ''block'' else ''none'');
             s2 = foldl (\<lambda>w field. Field_setVisible w field visible) s1 (fieldRow (inputHeap s1 this))
         in case connection (inputHeap s2 this) of
              None \<Rightarrow> (s2, [])
            | Some c \<Rightarrow>
               (case (if visible then Connection_unhideAll s2 c else (Connection_hideAll s2 c, [])) of
                  (s3, renderList) \<Rightarrow>
                    (case targetBlock (connectionHeap s3 c) of
                       None \<Rightarrow> (s3, renderList)
                     | Some child \<Rightarrow>
                        (let s4 = s3\<lparr>blockHeap := (blockHeap s3)
                                      (child := (blockHeap s3 child)\<lparr>display := display'\<rparr>)\<rparr>;
                             s5 = (if \<not> visible
                                   then s4\<lparr>blockHeap := (blockHeap s4)
                                            (child := (blockHeap s4 child)\<lparr>rendered := False\<rparr>)\<rparr>
                                   else s4)
                         in (s5, renderList))))))"

text \<open>\<^verbatim>\<open>setCheck\<close> returns \<^verbatim>\<open>this\<close>: the address it was called on.\<close>

definition setCheck :: "world \<Rightarrow> nat \<Rightarrow> check_arg \<Rightarrow> world \<times> (error + nat)" where
  "setCheck s this chk =
     (case connection (inputHeap s this) of
        None \<Rightarrow> (s, Inl NoConnection)
      | Some c \<Rightarrow> (Connection_setCheck s c chk, Inr this))"

definition dispose :: "world \<Rightarrow> nat \<Rightarrow> world" where
  "dispose s this =
     (let s1 = (case outlinePath (inputHeap s this) of
                  Some node \<Rightarrow> removeNode s node
                | None \<Rightarrow> s);
          s2 = foldl Field_dispose s1 (fieldRow (inputHeap s1 this));
          s3 = (case connection (inputHeap s2 this) of
                  Some c \<Rightarrow> Connection_dispose s2 c
                | None \<Rightarrow> s2)
      in s3\<lparr>inputHeap := (inputHeap s3)(this := (inputHeap s3 this)\<lparr>sourceBlock' := None\<rparr>)\<rparr>)"

section \<open>JavaScript numbers\<close>

text \<open>
  The numbers of the class Grid are JavaScript numbers: IEEE 754 binary64 values with
  round-to-nearest, ties-to-even arithmetic. A number is \<^verbatim>\<open>NaN\<close>, an infinity, the negative
  zero, or a finite value given as a rational, \<open>Finite 0\<close> being the positive zero. The
  finite values that occur are those of the form \<open>m * 2 ^ e\<close> with \<open>\<bar>m\<bar> < 2 ^ 53\<close> and
  \<open>- 1074 \<le> e \<le> 971\<close>; every operation below returns such a value when it returns a
  finite one, since it rounds.
\<close>

datatype double = Finite rat | NegZero | PosInf | NegInf | NotANumber

fun negative :: "double \<Rightarrow> bool" where
  "negative (Finite q) = (q < 0)"
| "negative NegZero = True"
| "negative NegInf = True"
| "negative PosInf = False"
| "negative NotANumber = False"

text \<open>\<^verbatim>\<open>x == 0\<close> holds for both zeros.\<close>

fun is_zero :: "double \<Rightarrow> bool" where
  "is_zero (Finite q) = (q = 0)"
| "is_zero NegZero = True"
| "is_zero PosInf = False"
| "is_zero NegInf = False"
| "is_zero NotANumber = False"

fun is_nan :: "double \<Rightarrow> bool" where
  "is_nan NotANumber = True"
| "is_nan (Finite q) = False"
| "is_nan NegZero = False"
| "is_nan PosInf = False"
| "is_nan NegInf = False"

fun is_inf :: "double \<Rightarrow> bool" where
  "is_inf PosInf = True"
| "is_inf NegInf = True"
| "is_inf (Finite q) = False"
| "is_inf NegZero = False"
| "is_inf NotANumber = False"

fun rat_of :: "double \<Rightarrow> rat" where
  "rat_of (Finite q) = q"
| "rat_of NegZero = 0"
| "rat_of PosInf = 0"
| "rat_of NegInf = 0"
| "rat_of NotANumber = 0"

definition zero_of :: "bool \<Rightarrow> double" where
  "zero_of neg = (if neg then NegZero else Finite 0)"

definition inf_of :: "bool \<Rightarrow> double" where
  "inf_of neg = (if neg then NegInf else PosInf)"

text \<open>
  Rounding a rational to binary64. \<open>bits n\<close> is the length of \<open>n\<close> in binary and \<open>ilog2 a\<close>
  the exponent of the power of two at or below \<open>a\<close>. The unit in the last place of the
  result is \<open>2 ^ e\<close> with \<open>e = max (ilog2 \<bar>q\<bar> - 52) (- 1074)\<close> (the lower bound is that of the
  subnormal numbers); \<open>\<bar>q\<bar>\<close> is rounded to a multiple of the unit, a tie going to the even
  multiple; a result of \<open>2 ^ 1024\<close> or more is an infinity and a result of 0 is a zero with
  the sign of \<open>q\<close>.
\<close>

function bits :: "int \<Rightarrow> int" where
  "bits n = (if n \<le> 0 then 0 else 1 + bits (n div 2))"
  by pat_completeness auto
termination
  by (relation "measure nat") auto

declare bits.simps [simp del]

definition ilog2 :: "rat \<Rightarrow> int" where
  "ilog2 a = (if 1 \<le> a then bits \<lfloor>a\<rfloor> - 1 else - bits (\<lceil>1 / a\<rceil> - 1))"

definition pow2 :: "int \<Rightarrow> rat" where
  "pow2 e = (if 0 \<le> e then 2 ^ nat e else 1 / 2 ^ nat (- e))"

definition round_half_even :: "rat \<Rightarrow> int" where
  "round_half_even x =
     (let f = \<lfloor>x\<rfloor>; r = x - of_int f
      in if r < 1 / 2 then f else if 1 / 2 < r then f + 1 else if even f then f else f + 1)"

definition round64 :: "rat \<Rightarrow> double" where
  "round64 q =
     (if q = 0 then Finite 0
      else
        (let a = \<bar>q\<bar>;
             e = max (ilog2 a - 52) (- 1074);
             m = round_half_even (a / pow2 e);
             v = of_int m * pow2 e
         in if 2 ^ 1024 \<le> v then inf_of (q < 0)
            else if m = 0 then zero_of (q < 0)
            else Finite (if q < 0 then - v else v)))"

text \<open>
  The operators \<^verbatim>\<open>*\<close>, \<^verbatim>\<open>/\<close>, \<^verbatim>\<open>+\<close>, \<^verbatim>\<open>-\<close> and \<^verbatim>\<open>Math.floor\<close>: \<^verbatim>\<open>NaN\<close> is
  contagious, the infinities and the zeros follow the rules of the standard (the sign of
  a product or quotient is the exclusive or of the signs, an exact sum of 0 is the
  positive zero unless both summands are negative zeros), and the exact result of two
  finite non-zero operands is rounded.
\<close>

definition jmul :: "double \<Rightarrow> double \<Rightarrow> double" where
  "jmul a b =
     (if is_nan a \<or> is_nan b then NotANumber
      else if is_inf a \<or> is_inf b
      then (if is_zero a \<or> is_zero b then NotANumber else inf_of (negative a \<noteq> negative b))
      else if is_zero a \<or> is_zero b then zero_of (negative a \<noteq> negative b)
      else round64 (rat_of a * rat_of b))"

definition jdiv :: "double \<Rightarrow> double \<Rightarrow> double" where
  "jdiv a b =
     (if is_nan a \<or> is_nan b then NotANumber
      else if is_inf a then (if is_inf b then NotANumber else inf_of (negative a \<noteq> negative b))
      else if is_inf b then zero_of (negative a \<noteq> negative b)
      else if is_zero b
      then (if is_zero a then NotANumber else inf_of (negative a \<noteq> negative b))
      else if is_zero a then zero_of (negative a \<noteq> negative b)
      else round64 (rat_of a / rat_of b))"

definition jadd :: "double \<Rightarrow> double \<Rightarrow> double" where
  "jadd a b =
     (if is_nan a \<or> is_nan b then NotANumber
      else if is_inf a then (if is_inf b \<and> a \<noteq> b then NotANumber else a)
      else if is_inf b then b
      else if is_zero a then (if is_zero b then zero_of (negative a \<and> negative b) else b)
      else if is_zero b then a
      else if rat_of a + rat_of b = 0 then Finite 0
      else round64 (rat_of a + rat_of b))"

fun jneg :: "double \<Rightarrow> double" where
  "jneg (Finite q) = (if q = 0 then NegZero else Finite (- q))"
| "jneg NegZero = Finite 0"
| "jneg PosInf = NegInf"
| "jneg NegInf = PosInf"
| "jneg NotANumber = NotANumber"

definition jsub :: "double \<Rightarrow> double \<Rightarrow> double" where
  "jsub a b = jadd a (jneg b)"

fun jfloor :: "double \<Rightarrow> double" where
  "jfloor (Finite q) = Finite (of_int \<lfloor>q\<rfloor>)"
| "jfloor NegZero = NegZero"
| "jfloor PosInf = PosInf"
| "jfloor NegInf = NegInf"
| "jfloor NotANumber = NotANumber"

text \<open>
  \<^verbatim>\<open>setAttribute(name, x)\<close> stores the string of the number \<open>x\<close>. Different numbers have
  different strings, except that both zeros give \<^verbatim>\<open>"0"\<close>: an attribute value is kept as
  the number it was made from, the negative zero as the positive one.
\<close>

definition number_attr :: "double \<Rightarrow> double" where
  "number_attr x = (if x = NegZero then Finite 0 else x)"

section \<open>The grid\<close>

text \<open>
  The second source file is the class Grid. The pattern and the two lines are DOM elements
  that only the grid writes to; they are records of the attributes that \<^verbatim>\<open>update\<close> sets,
  \<open>None\<close> for an attribute not set yet. As above, a trailing underscore of the source is
  written as a prime.
\<close>

record Pattern =
  patternId :: string
  attrWidth :: "double option"
  attrHeight :: "double option"

record Line =
  attrStrokeWidth :: "double option"
  attrX1 :: "double option"
  attrY1 :: "double option"
  attrX2 :: "double option"
  attrY2 :: "double option"

record Grid =
  gridPattern' :: "Pattern option"
  spacing' :: double
  length' :: double
  snapToGrid' :: bool
  line1' :: "Line option"
  line2' :: "Line option"
  scale' :: double

text \<open>\<^verbatim>\<open>setLineAttributes_(line, width, x1, x2, y1, y2)\<close>: nothing happens without a line.\<close>

definition setLineAttributes ::
  "Line option \<Rightarrow> double \<Rightarrow> double \<Rightarrow> double \<Rightarrow> double \<Rightarrow> double \<Rightarrow> Line option" where
  "setLineAttributes line w x1 x2 y1 y2 =
     (case line of
        None \<Rightarrow> None
      | Some l \<Rightarrow>
          Some (l\<lparr>attrStrokeWidth := Some (number_attr w), attrX1 := Some (number_attr x1),
                  attrY1 := Some (number_attr y1), attrX2 := Some (number_attr x2),
                  attrY2 := Some (number_attr y2)\<rparr>))"

text \<open>
  \<^verbatim>\<open>update(scale)\<close>. \<^verbatim>\<open>(this.spacing_ * scale) || 100\<close> is 100 when the product is falsy,
  and the falsy numbers are the zeros and \<^verbatim>\<open>NaN\<close>. A disposed grid has no pattern, and
  \<^verbatim>\<open>setAttribute\<close> on \<^verbatim>\<open>null\<close> throws after \<^verbatim>\<open>scale_\<close> has been stored.
\<close>

definition update :: "Grid \<Rightarrow> double \<Rightarrow> Grid \<times> (error + unit)" where
  "update g scale =
     (let g1 = g\<lparr>scale' := scale\<rparr>;
          product = jmul (spacing' g1) scale;
          safeSpacing = (if is_zero product \<or> is_nan product then Finite 100 else product)
      in case gridPattern' g1 of
           None \<Rightarrow> (g1, Inl TypeError)
         | Some p \<Rightarrow>
            (let g2 = g1\<lparr>gridPattern' :=
                           Some (p\<lparr>attrWidth := Some (number_attr safeSpacing),
                                   attrHeight := Some (number_attr safeSpacing)\<rparr>)\<rparr>;
                 half = jadd (jfloor (jdiv (spacing' g2) (Finite 2))) (Finite (1 / 2));
                 start = jsub half (jdiv (length' g2) (Finite 2));
                 end' = jadd half (jdiv (length' g2) (Finite 2));
                 half2 = jmul half scale;
                 start2 = jmul start scale;
                 end2 = jmul end' scale;
                 g3 = g2\<lparr>line1' := setLineAttributes (line1' g2) scale start2 end2 half2 half2\<rparr>;
                 g4 = g3\<lparr>line2' := setLineAttributes (line2' g3) scale half2 half2 start2 end2\<rparr>
             in (g4, Inr ())))"

section \<open>Predicates on stores\<close>

text \<open>
  None of these is code: they are what the theorems about \<^verbatim>\<open>insertFieldAt\<close> are stated with.
\<close>


text \<open>
  Between two stores, the Input has kept its owning block, every Field object that existed
  has kept its prefix, its suffix and its label text, and the objects created since have
  neither prefix nor suffix.
\<close>

definition fields_kept :: "nat \<Rightarrow> world \<Rightarrow> world \<Rightarrow> bool" where
  "fields_kept this s s' \<longleftrightarrow>
     sourceBlock' (inputHeap s' this) = sourceBlock' (inputHeap s this) \<and>
     nextField s \<le> nextField s' \<and>
     (\<forall>g. g < nextField s \<longrightarrow>
        prefixField (fieldHeap s' g) = prefixField (fieldHeap s g) \<and>
        suffixField (fieldHeap s' g) = suffixField (fieldHeap s g) \<and>
        labelText (fieldHeap s' g) = labelText (fieldHeap s g)) \<and>
     (\<forall>g. nextField s \<le> g \<and> g < nextField s' \<longrightarrow>
        prefixField (fieldHeap s' g) = FUndefined \<and> suffixField (fieldHeap s' g) = FUndefined)"


text \<open>An argument that is an object is an existing object.\<close>

definition allocated :: "world \<Rightarrow> field_arg \<Rightarrow> bool" where
  "allocated s a \<longleftrightarrow> (\<forall>g. a = FField g \<longrightarrow> g < nextField s)"


text \<open>
  The row entry \<open>e\<close> stands for the argument \<open>a\<close>: it is the Field object \<open>a\<close> itself, or a
  label created between the two stores whose text is the string \<open>a\<close>.
\<close>

definition entry_for :: "world \<Rightarrow> world \<Rightarrow> field_arg \<Rightarrow> nat \<Rightarrow> bool" where
  "entry_for s s' a e =
     (case a of
        FField g \<Rightarrow> e = g
      | FString t \<Rightarrow> nextField s \<le> e \<and> e < nextField s' \<and> labelText (fieldHeap s' e) = t
      | FUndefined \<Rightarrow> False)"

section \<open>A concrete store\<close>

text \<open>
  The theorems below are instantiated on this store. Input 0 belongs to the rendered block
  0, has the row of the fields 1 and 2 (named A and B), an outline and connection 0, which
  is linked to the child block 1. Input 1 has neither fields nor a connection. Field 3 is
  not in a row yet: it is named ANGLE, its prefix is the string \<^verbatim>\<open>rotate\<close> and its suffix
  is field 4.
\<close>

definition plain_field :: Field where
  "plain_field =
     \<lparr>name = None, prefixField = FUndefined, suffixField = FUndefined, labelText = [],
      fieldSourceBlock = None, fieldVisible = True, fieldInitCalls = 0, fieldDisposeCalls = 0\<rparr>"

definition example_input :: Input where
  "example_input =
     \<lparr>inputType = ValueInput, inputName = ''VALUE'', sourceBlock = 0, connection = Some 0,
      fieldRow = [1, 2], outlinePath = Some 0, align = ALIGN_LEFT, visible' = True,
      sourceBlock' = Some 0\<rparr>"

definition example_world :: world where
  "example_world =
     \<lparr>inputHeap = (\<lambda>i. example_input)
        (1 := example_input\<lparr>connection := None, fieldRow := [], outlinePath := None\<rparr>),
      fieldHeap = (\<lambda>f. plain_field)
        (1 := plain_field\<lparr>name := Some ''A''\<rparr>,
         2 := plain_field\<lparr>name := Some ''B''\<rparr>,
         3 := plain_field\<lparr>name := Some ''ANGLE'', prefixField := FString ''rotate'',
                            suffixField := FField 4\<rparr>,
         4 := plain_field\<lparr>name := Some ''UNIT''\<rparr>),
      nextField = 5,
      connectionHeap = (\<lambda>c. \<lparr>check = CheckNull, targetBlock = Some 1, unhideAllResult = [1],
                              hideAllCalls = 0, unhideAllCalls = 0, connectionDisposeCalls = 0\<rparr>),
      blockHeap = (\<lambda>b. \<lparr>rendered = True, display = ''block'', renderCalls = 0,
                         bumpNeighboursCalls = 0\<rparr>),
      removedNodes = []\<rparr>"

definition example_grid :: Grid where
  "example_grid =
     \<lparr>gridPattern' = Some \<lparr>patternId = ''blocklyGridPattern1'', attrWidth = None, attrHeight = None\<rparr>,
      spacing' = Finite 20, length' = Finite 0, snapToGrid' = True,
      line1' = Some \<lparr>attrStrokeWidth = None, attrX1 = None, attrY1 = None, attrX2 = None, attrY2 = None\<rparr>,
      line2' = None, scale' = Finite 1\<rparr>"

section \<open>Construction\<close>

text \<open>
  C7. Constructing an Input of kind ValueInput or StatementInput with an empty name fails;
  constructing an Input of kind DummyInput with an empty name succeeds.
\<close>

theorem Input_new_empty_name:
  "Input_new ValueInput [] block c = Inl EmptyName \<and>
   Input_new StatementInput [] block c = Inl EmptyName \<and>
   (\<exists>i. Input_new DummyInput [] block c = Inr i \<and> inputName i = [] \<and> inputType i = DummyInput)"
  by (simp add: Input_new_def)

section \<open>The checks at the head of \<^verbatim>\<open>insertFieldAt\<close>\<close>

lemmas example_defs = example_world_def example_input_def plain_field_def

text \<open>
  C8. For every index with \<open>index < 0\<close> or \<open>index > fieldRow.length\<close>,
  \<^verbatim>\<open>insertFieldAt(index, field, name)\<close> throws the out-of-bounds error, whatever the field
  and the name are, and the store it leaves is the store it was called in: the row, the
  connection and every other object are untouched.
\<close>

theorem insertFieldAt_out_of_range:
  "k < 0 \<or> k > int (length (fieldRow (inputHeap s this))) \<Longrightarrow>
   insertFieldAt (Suc depth) s this (Num k) field opt_name = (s, Inl IndexOutOfBounds)"
  by (simp add: insertFieldAt.simps(2))

theorem insertFieldAt_out_of_range_witness:
  "insertFieldAt (Suc 0) example_world 0 (Num 3) (FField 3) None
     = (example_world, Inl IndexOutOfBounds) \<and>
   insertFieldAt (Suc 0) example_world 0 (Num (- 1)) (FField 3) None
     = (example_world, Inl IndexOutOfBounds)"
  using insertFieldAt_out_of_range [of 3 example_world 0 0 "FField 3" None]
    insertFieldAt_out_of_range [of "- 1" example_world 0 0 "FField 3" None]
  by (simp add: example_defs)

text \<open>
  C2. The claim: for an index within the row, \<^verbatim>\<open>insertFieldAt(i, field, name)\<close> with a
  falsy field and no name inserts nothing, leaves the row unchanged and returns the
  numeric index \<open>i\<close>. The code leaves the store unchanged, but line 113 is
  \<^verbatim>\<open>return this\<close>: what comes back is the Input object, not the number. The theorem
  states what the code does; its instance shows that the result differs from the index.
\<close>

theorem insertFieldAt_falsy_returns_this:
  "0 \<le> k \<Longrightarrow> k \<le> int (length (fieldRow (inputHeap s this))) \<Longrightarrow>
   \<not> truthy field \<Longrightarrow> \<not> name_truthy opt_name \<Longrightarrow>
   insertFieldAt (Suc depth) s this (Num k) field opt_name = (s, Inr (RetThis this))"
  by (simp add: insertFieldAt.simps(2))

theorem insertFieldAt_falsy_returns_this_witness:
  "insertFieldAt (Suc 0) example_world 0 (Num 1) FUndefined None
     = (example_world, Inr (RetThis 0)) \<and>
   insertFieldAt (Suc 0) example_world 0 (Num 1) FUndefined None
     \<noteq> (example_world, Inr (RetIndex (Num 1)))"
  using insertFieldAt_falsy_returns_this [of 1 example_world 0 FUndefined None 0]
  by (simp add: example_defs)

section \<open>Connection configuration\<close>

text \<open>
  C6. \<^verbatim>\<open>setCheck(check)\<close> on an Input with no connection throws and leaves the store
  unchanged; on an Input with a connection it makes \<open>check\<close> the connection's accepted
  types, leaves every Input as it was and returns the Input it was called on.
\<close>

theorem setCheck_connection:
  "(connection (inputHeap s this) = None \<longrightarrow> setCheck s this chk = (s, Inl NoConnection)) \<and>
   (\<forall>c. connection (inputHeap s this) = Some c \<longrightarrow>
      (\<exists>s'. setCheck s this chk = (s', Inr this) \<and>
            check (connectionHeap s' c) = chk \<and>
            inputHeap s' = inputHeap s))"
  by (simp add: setCheck_def Connection_setCheck_def)

theorem setCheck_connection_witness:
  "setCheck example_world 1 (CheckString ''Number'') = (example_world, Inl NoConnection) \<and>
   (\<exists>s'. setCheck example_world 0 (CheckString ''Number'') = (s', Inr 0) \<and>
         check (connectionHeap s' 0) = CheckString ''Number'' \<and>
         inputHeap s' = inputHeap example_world)"
  using setCheck_connection [of example_world 1 "CheckString ''Number''"]
    setCheck_connection [of example_world 0 "CheckString ''Number''"]
  by (simp add: example_defs)

section \<open>The visibility cascade\<close>

lemma foldl_Field_setVisible_frame:
  "inputHeap (foldl (\<lambda>w field. Field_setVisible w field v) s fs) = inputHeap s \<and>
   connectionHeap (foldl (\<lambda>w field. Field_setVisible w field v) s fs) = connectionHeap s \<and>
   blockHeap (foldl (\<lambda>w field. Field_setVisible w field v) s fs) = blockHeap s"
  by (induction fs arbitrary: s) (simp_all add: Field_setVisible_def)

text \<open>
  C5. On a visible Input that owns a connection, \<^verbatim>\<open>setVisible(false)\<close> returns the empty
  list, calls \<^verbatim>\<open>hideAll()\<close> on the connection once (and not \<^verbatim>\<open>unhideAll()\<close>), and if
  the connection has a linked child block, that block's \<^verbatim>\<open>rendered\<close> flag is false
  afterwards and its display is \<^verbatim>\<open>none\<close>.
\<close>

theorem setVisible_false_hides:
  assumes "visible' (inputHeap s this)" and "connection (inputHeap s this) = Some c"
  shows "\<exists>s'. setVisible s this False = (s', []) \<and>
           \<not> visible' (inputHeap s' this) \<and>
           hideAllCalls (connectionHeap s' c) = Suc (hideAllCalls (connectionHeap s c)) \<and>
           unhideAllCalls (connectionHeap s' c) = unhideAllCalls (connectionHeap s c) \<and>
           (\<forall>child. targetBlock (connectionHeap s c) = Some child \<longrightarrow>
              \<not> rendered (blockHeap s' child) \<and> display (blockHeap s' child) = ''none'')"
  using assms
  by (simp add: setVisible_def Let_def foldl_Field_setVisible_frame Connection_hideAll_def
      split: option.split)

theorem setVisible_false_hides_witness:
  "\<exists>s'. setVisible example_world 0 False = (s', []) \<and>
        \<not> visible' (inputHeap s' 0) \<and>
        hideAllCalls (connectionHeap s' 0) = 1 \<and>
        unhideAllCalls (connectionHeap s' 0) = 0 \<and>
        \<not> rendered (blockHeap s' 1) \<and> display (blockHeap s' 1) = ''none''"
  using setVisible_false_hides [of example_world 0 0]
  by (simp add: example_defs)

section \<open>Disposal\<close>

lemma foldl_Field_dispose_frame:
  "inputHeap (foldl Field_dispose s fs) = inputHeap s \<and>
   connectionHeap (foldl Field_dispose s fs) = connectionHeap s \<and>
   blockHeap (foldl Field_dispose s fs) = blockHeap s \<and>
   removedNodes (foldl Field_dispose s fs) = removedNodes s"
  by (induction fs arbitrary: s) (simp_all add: Field_dispose_def)

lemma foldl_Field_dispose_calls:
  "fieldDisposeCalls (fieldHeap (foldl Field_dispose s fs) f) =
   fieldDisposeCalls (fieldHeap s f) + count_list fs f"
  by (induction fs arbitrary: s) (simp_all add: Field_dispose_def)

text \<open>
  C1. The claim: after \<^verbatim>\<open>dispose()\<close> the field row is empty, the connection reference is
  null and the owning-block reference is null. The code disposes the fields and the
  connection but assigns neither \<^verbatim>\<open>this.fieldRow\<close> nor \<^verbatim>\<open>this.connection\<close>: on input 0
  of the concrete store the row still holds its two fields and the connection reference
  is still there.
\<close>

theorem dispose_counterexample:
  "\<not> (fieldRow (inputHeap (dispose example_world 0) 0) = [] \<and>
      connection (inputHeap (dispose example_world 0) 0) = None \<and>
      sourceBlock' (inputHeap (dispose example_world 0) 0) = None)"
  by (simp add: dispose_def example_defs removeNode_def Field_dispose_def Connection_dispose_def)

text \<open>
  C1, amended. After \<^verbatim>\<open>dispose()\<close> the owning-block reference \<^verbatim>\<open>sourceBlock_\<close> is null,
  every field has been disposed once for each time it occurs in the row, and the
  connection, if there is one, has been disposed once; the row and the connection
  reference are what they were before the call.
\<close>

theorem dispose_severs:
  "fieldRow (inputHeap (dispose s this) this) = fieldRow (inputHeap s this) \<and>
   connection (inputHeap (dispose s this) this) = connection (inputHeap s this) \<and>
   sourceBlock' (inputHeap (dispose s this) this) = None \<and>
   (\<forall>f. fieldDisposeCalls (fieldHeap (dispose s this) f) =
        fieldDisposeCalls (fieldHeap s f) + count_list (fieldRow (inputHeap s this)) f) \<and>
   (\<forall>c. connectionDisposeCalls (connectionHeap (dispose s this) c) =
        connectionDisposeCalls (connectionHeap s c) +
        (if connection (inputHeap s this) = Some c then 1 else 0))"
  by (simp add: dispose_def Let_def foldl_Field_dispose_frame foldl_Field_dispose_calls
      removeNode_def Connection_dispose_def split: option.split)

theorem dispose_severs_witness:
  "fieldRow (inputHeap (dispose example_world 0) 0) = [1, 2] \<and>
   connection (inputHeap (dispose example_world 0) 0) = Some 0 \<and>
   sourceBlock' (inputHeap (dispose example_world 0) 0) = None \<and>
   fieldDisposeCalls (fieldHeap (dispose example_world 0) 1) = 1 \<and>
   fieldDisposeCalls (fieldHeap (dispose example_world 0) 2) = 1 \<and>
   fieldDisposeCalls (fieldHeap (dispose example_world 0) 3) = 0 \<and>
   connectionDisposeCalls (connectionHeap (dispose example_world 0) 0) = 1"
  using dispose_severs [of example_world 0]
  by (simp add: example_defs)

section \<open>Updating the grid\<close>

lemma is_zero_finite: "is_zero x \<Longrightarrow> \<not> is_nan x \<and> \<not> is_inf x"
  by (cases x) simp_all

lemma number_attr_nonzero: "\<not> is_zero x \<Longrightarrow> number_attr x = x"
  by (cases x) (simp_all add: number_attr_def)

lemma jdiv_zero: "is_zero x \<Longrightarrow> is_zero (jdiv x (Finite 2))"
  by (cases x) (simp_all add: jdiv_def zero_of_def)

lemma jneg_zero: "is_zero z \<Longrightarrow> is_zero (jneg z)"
  by (cases z) simp_all

text \<open>Adding a zero changes nothing, unless both are zeros: then the sum is a zero.\<close>

lemma jadd_zero:
  "is_zero z \<Longrightarrow> jadd h z = h \<or> (is_zero h \<and> is_zero (jadd h z))"
  by (cases h; cases z) (simp_all add: jadd_def zero_of_def)

text \<open>A zero times the scale gives the same attribute, whatever the sign of the zero.\<close>

lemma jmul_zero_attr:
  "is_zero a \<Longrightarrow> is_zero b \<Longrightarrow> number_attr (jmul a s) = number_attr (jmul b s)"
  by (cases a; cases b) (simp_all add: jmul_def zero_of_def number_attr_def)

lemma start_end_attr:
  assumes "is_zero len"
  shows "number_attr (jmul (jsub h (jdiv len (Finite 2))) s) =
         number_attr (jmul (jadd h (jdiv len (Finite 2))) s)"
proof -
  let ?z = "jdiv len (Finite 2)"
  have z: "is_zero ?z" using assms by (rule jdiv_zero)
  then have nz: "is_zero (jneg ?z)" by (rule jneg_zero)
  from jadd_zero [OF nz, of h] jadd_zero [OF z, of h] show ?thesis
    unfolding jsub_def by (auto intro: jmul_zero_attr)
qed

text \<open>
  C9. The claim: \<^verbatim>\<open>update(scale)\<close> sets the pattern's width and height to
  \<open>spacing * scale\<close>, except that they are 100 when that product equals 0. With a spacing
  of 20 and the scale \<^verbatim>\<open>NaN\<close> the product is \<^verbatim>\<open>NaN\<close>, which does not equal 0, and the
  width is 100 all the same: \<^verbatim>\<open>||\<close> replaces every falsy value.
\<close>

theorem update_counterexample:
  "\<not> is_zero (jmul (spacing' example_grid) NotANumber) \<and>
   attrWidth (the (gridPattern' (fst (update example_grid NotANumber)))) = Some (Finite 100) \<and>
   attrWidth (the (gridPattern' (fst (update example_grid NotANumber))))
     \<noteq> Some (jmul (spacing' example_grid) NotANumber)"
  by (simp add: example_grid_def update_def Let_def jmul_def number_attr_def)

text \<open>
  C9, amended. On a grid that still has its pattern, \<^verbatim>\<open>update(scale)\<close> returns normally
  and sets the pattern's width and height to the product \<open>spacing * scale\<close>, or to 100 when
  that product is 0 or \<^verbatim>\<open>NaN\<close>. When the grid's line length is 0 the pattern is set all
  the same, and on each line that exists the start and the end are the same point.
\<close>

theorem update_tile:
  assumes "gridPattern' g = Some p"
  shows "\<exists>g' p'. update g scale = (g', Inr ()) \<and> gridPattern' g' = Some p' \<and>
           attrWidth p' =
             Some (if is_zero (jmul (spacing' g) scale) \<or> is_nan (jmul (spacing' g) scale)
                   then Finite 100 else jmul (spacing' g) scale) \<and>
           attrHeight p' =
             Some (if is_zero (jmul (spacing' g) scale) \<or> is_nan (jmul (spacing' g) scale)
                   then Finite 100 else jmul (spacing' g) scale) \<and>
           (is_zero (length' g) \<longrightarrow>
              (\<forall>l. line1' g' = Some l \<longrightarrow> attrX1 l = attrX2 l \<and> attrY1 l = attrY2 l) \<and>
              (\<forall>l. line2' g' = Some l \<longrightarrow> attrX1 l = attrX2 l \<and> attrY1 l = attrY2 l))"
proof -
  have lines: "is_zero (length' g) \<longrightarrow>
      number_attr (jmul (jsub h (jdiv (length' g) (Finite 2))) scale) =
      number_attr (jmul (jadd h (jdiv (length' g) (Finite 2))) scale)" for h
    by (simp add: start_end_attr)
  have hundred: "number_attr (Finite 100) = Finite 100" by (simp add: number_attr_def)
  show ?thesis
    using assms lines
    by (auto simp add: update_def Let_def setLineAttributes_def number_attr_nonzero hundred
        split: option.splits)
qed

text \<open>One product worked out: 20 times 2 needs no rounding.\<close>

lemma bits_0: "bits 0 = 0"
  by (subst bits.simps) simp

lemma bits_pos: "0 < n \<Longrightarrow> bits n = 1 + bits (n div 2)"
  by (subst bits.simps) simp

lemma round64_40: "round64 40 = Finite 40"
  by (simp add: round64_def ilog2_def bits_0 bits_pos pow2_def round_half_even_def Let_def)

theorem update_tile_witness:
  "(\<exists>g' p' l. update (example_grid\<lparr>spacing' := Finite 0\<rparr>) (Finite 2) = (g', Inr ()) \<and>
      gridPattern' g' = Some p' \<and> attrWidth p' = Some (Finite 100) \<and>
      attrHeight p' = Some (Finite 100) \<and>
      line1' g' = Some l \<and> attrX1 l = attrX2 l \<and> attrY1 l = attrY2 l) \<and>
   (\<exists>g' p'. update example_grid (Finite 2) = (g', Inr ()) \<and>
      gridPattern' g' = Some p' \<and> attrWidth p' = Some (Finite 40) \<and>
      attrHeight p' = Some (Finite 40)) \<and>
   (\<exists>g' p'. update example_grid NotANumber = (g', Inr ()) \<and>
      gridPattern' g' = Some p' \<and> attrWidth p' = Some (Finite 100) \<and>
      attrHeight p' = Some (Finite 100))"
proof -
  have p: "gridPattern' (example_grid\<lparr>spacing' := Finite 0\<rparr>) = gridPattern' example_grid"
    and some: "gridPattern' example_grid = Some (the (gridPattern' example_grid))"
    and len: "is_zero (length' (example_grid\<lparr>spacing' := Finite 0\<rparr>))"
    and prod0: "jmul (spacing' (example_grid\<lparr>spacing' := Finite 0\<rparr>)) (Finite 2) = Finite 0"
    and prod: "jmul (spacing' example_grid) (Finite 2) = Finite 40"
    and prodn: "jmul (spacing' example_grid) NotANumber = NotANumber"
    by (simp_all add: example_grid_def jmul_def zero_of_def round64_40)
  have l1: "\<exists>l. line1' (fst (update (example_grid\<lparr>spacing' := Finite 0\<rparr>) (Finite 2))) = Some l"
    by (simp add: example_grid_def update_def Let_def setLineAttributes_def)
  from update_tile [of "example_grid\<lparr>spacing' := Finite 0\<rparr>" "the (gridPattern' example_grid)"
      "Finite 2"] p some len prod0 l1
  have "\<exists>g' p' l. update (example_grid\<lparr>spacing' := Finite 0\<rparr>) (Finite 2) = (g', Inr ()) \<and>
      gridPattern' g' = Some p' \<and> attrWidth p' = Some (Finite 100) \<and>
      attrHeight p' = Some (Finite 100) \<and>
      line1' g' = Some l \<and> attrX1 l = attrX2 l \<and> attrY1 l = attrY2 l"
    by auto
  moreover
  from update_tile [of example_grid "the (gridPattern' example_grid)" "Finite 2"] some prod
  have "\<exists>g' p'. update example_grid (Finite 2) = (g', Inr ()) \<and>
      gridPattern' g' = Some p' \<and> attrWidth p' = Some (Finite 40) \<and>
      attrHeight p' = Some (Finite 40)"
    by auto
  moreover
  from update_tile [of example_grid "the (gridPattern' example_grid)" NotANumber] some prodn
  have "\<exists>g' p'. update example_grid NotANumber = (g', Inr ()) \<and>
      gridPattern' g' = Some p' \<and> attrWidth p' = Some (Finite 100) \<and>
      attrHeight p' = Some (Finite 100)"
    by auto
  ultimately show ?thesis by blast
qed

section \<open>Removing a field\<close>

lemma removeField_loop_skip:
  assumes "i \<le> j" and "j \<le> length (fieldRow (inputHeap s this))"
    and "\<forall>k. i \<le> k \<and> k < j \<longrightarrow> name (fieldHeap s (fieldRow (inputHeap s this) ! k)) \<noteq> Some nm"
  shows "removeField_loop s this nm i = removeField_loop s this nm j"
  using assms
proof (induction "j - i" arbitrary: i)
  case 0
  then show ?case by simp
next
  case (Suc d)
  then have lt: "i < j" and "i < length (fieldRow (inputHeap s this))" by auto
  moreover from Suc.prems lt have "name (fieldHeap s (fieldRow (inputHeap s this) ! i)) \<noteq> Some nm"
    by auto
  moreover have "removeField_loop s this nm (Suc i) = removeField_loop s this nm j"
    using Suc by (intro Suc.hyps(1)) auto
  ultimately show ?case
    by (subst removeField_loop.simps) simp
qed

lemma removeField_loop_end:
  "removeField_loop s this nm (length (fieldRow (inputHeap s this))) = (s, Inl FieldNotFound)"
  by (subst removeField_loop.simps) simp

lemma removeField_loop_hit:
  assumes "j < length (fieldRow (inputHeap s this))"
    and "name (fieldHeap s (fieldRow (inputHeap s this) ! j)) = Some nm"
  shows "\<exists>s' r. removeField_loop s this nm j = (s', r) \<and>
           fieldRow (inputHeap s' this) =
             take j (fieldRow (inputHeap s this)) @ drop (Suc j) (fieldRow (inputHeap s this)) \<and>
           (\<forall>f. fieldDisposeCalls (fieldHeap s' f) =
                fieldDisposeCalls (fieldHeap s f) +
                (if f = fieldRow (inputHeap s this) ! j then 1 else 0)) \<and>
           (sourceBlock' (inputHeap s this) \<noteq> None \<longrightarrow> r = Inr ())"
  using assms
  by (subst removeField_loop.simps)
    (auto simp add: Let_def Field_dispose_def set_fieldRow_def splice_remove_def
      Block_render_def Block_bumpNeighbours_def split: option.split)


lemma takeWhile_before: "k < length (takeWhile P xs) \<Longrightarrow> P (xs ! k)"
proof -
  assume k: "k < length (takeWhile P xs)"
  then have "takeWhile P xs ! k \<in> set (takeWhile P xs)" by (rule nth_mem)
  then have "P (takeWhile P xs ! k)" by (rule set_takeWhileD [THEN conjunct2])
  with k show ?thesis by (simp add: takeWhile_nth)
qed

lemma takeWhile_stops:
  assumes "\<exists>x \<in> set xs. \<not> P x"
  shows "length (takeWhile P xs) < length xs \<and> \<not> P (xs ! length (takeWhile P xs))"
proof -
  have "length (takeWhile P xs) \<noteq> length xs"
  proof
    assume "length (takeWhile P xs) = length xs"
    then have "takeWhile P xs = xs"
      using takeWhile_eq_take [of P xs] by simp
    with assms show False by (simp only: takeWhile_eq_all_conv) blast
  qed
  then have "length (takeWhile P xs) < length xs"
    using length_takeWhile_le [of P xs] by simp
  then show ?thesis by (simp add: nth_length_takeWhile)
qed

lemma removeField_found:
  assumes "\<exists>f \<in> set (fieldRow (inputHeap s this)). name (fieldHeap s f) = Some nm"
  shows "first_named s this nm < length (fieldRow (inputHeap s this)) \<and>
     name (fieldHeap s (fieldRow (inputHeap s this) ! first_named s this nm)) = Some nm \<and>
     (\<forall>k < first_named s this nm. name (fieldHeap s (fieldRow (inputHeap s this) ! k)) \<noteq> Some nm) \<and>
     (\<exists>s' r. removeField s this nm = (s', r) \<and>
        fieldRow (inputHeap s' this) =
          take (first_named s this nm) (fieldRow (inputHeap s this)) @
          drop (Suc (first_named s this nm)) (fieldRow (inputHeap s this)) \<and>
        Suc (length (fieldRow (inputHeap s' this))) = length (fieldRow (inputHeap s this)) \<and>
        (\<forall>f. fieldDisposeCalls (fieldHeap s' f) =
             fieldDisposeCalls (fieldHeap s f) +
             (if f = fieldRow (inputHeap s this) ! first_named s this nm then 1 else 0)) \<and>
        (sourceBlock' (inputHeap s this) \<noteq> None \<longrightarrow> r = Inr ()))"
proof -
  let ?row = "fieldRow (inputHeap s this)"
  let ?j = "first_named s this nm"
  have before: "\<forall>k < ?j. name (fieldHeap s (?row ! k)) \<noteq> Some nm"
    unfolding first_named_def by (auto dest: takeWhile_before)
  from assms have stop: "?j < length ?row \<and> name (fieldHeap s (?row ! ?j)) = Some nm"
    unfolding first_named_def
    using takeWhile_stops [of ?row "\<lambda>f. name (fieldHeap s f) \<noteq> Some nm"] by simp
  then have lt: "?j < length ?row" and hit: "name (fieldHeap s (?row ! ?j)) = Some nm"
    by simp_all
  have skip: "removeField s this nm = removeField_loop s this nm ?j"
    unfolding removeField_def using lt before
    by (intro removeField_loop_skip) auto
  from removeField_loop_hit [OF lt hit] obtain s' r where
    res: "removeField_loop s this nm ?j = (s', r)"
    and row: "fieldRow (inputHeap s' this) = take ?j ?row @ drop (Suc ?j) ?row"
    and calls: "\<forall>f. fieldDisposeCalls (fieldHeap s' f) =
           fieldDisposeCalls (fieldHeap s f) + (if f = ?row ! ?j then 1 else 0)"
    and ret: "sourceBlock' (inputHeap s this) \<noteq> None \<longrightarrow> r = Inr ()"
    by blast
  from row lt have len: "Suc (length (fieldRow (inputHeap s' this))) = length ?row" by simp
  from res row len calls ret skip
  have "\<exists>s' r. removeField s this nm = (s', r) \<and>
        fieldRow (inputHeap s' this) = take ?j ?row @ drop (Suc ?j) ?row \<and>
        Suc (length (fieldRow (inputHeap s' this))) = length ?row \<and>
        (\<forall>f. fieldDisposeCalls (fieldHeap s' f) =
             fieldDisposeCalls (fieldHeap s f) + (if f = ?row ! ?j then 1 else 0)) \<and>
        (sourceBlock' (inputHeap s this) \<noteq> None \<longrightarrow> r = Inr ())"
    by auto
  with lt hit before show ?thesis by blast
qed

lemma removeField_missing:
  assumes "\<forall>f \<in> set (fieldRow (inputHeap s this)). name (fieldHeap s f) \<noteq> Some nm"
  shows "removeField s this nm = (s, Inl FieldNotFound)"
proof -
  have "removeField s this nm =
        removeField_loop s this nm (length (fieldRow (inputHeap s this)))"
    unfolding removeField_def using assms
    by (intro removeField_loop_skip) auto
  then show ?thesis by (simp add: removeField_loop_end)
qed

text \<open>
  C4. When the row holds a field named \<open>nm\<close>, \<^verbatim>\<open>removeField(nm)\<close> takes the first such
  field in row order (no earlier field has that name), calls its \<^verbatim>\<open>dispose()\<close> once and
  no other field's, and removes that one entry, so that the row is one shorter; it returns
  normally unless the Input has lost its owning block. When no field of the row has the
  name, it throws the not-found assertion and the store is unchanged.
\<close>

theorem removeField_first_match:
  "((\<exists>f \<in> set (fieldRow (inputHeap s this)). name (fieldHeap s f) = Some nm) \<longrightarrow>
     first_named s this nm < length (fieldRow (inputHeap s this)) \<and>
     name (fieldHeap s (fieldRow (inputHeap s this) ! first_named s this nm)) = Some nm \<and>
     (\<forall>k < first_named s this nm. name (fieldHeap s (fieldRow (inputHeap s this) ! k)) \<noteq> Some nm) \<and>
     (\<exists>s' r. removeField s this nm = (s', r) \<and>
        fieldRow (inputHeap s' this) =
          take (first_named s this nm) (fieldRow (inputHeap s this)) @
          drop (Suc (first_named s this nm)) (fieldRow (inputHeap s this)) \<and>
        Suc (length (fieldRow (inputHeap s' this))) = length (fieldRow (inputHeap s this)) \<and>
        (\<forall>f. fieldDisposeCalls (fieldHeap s' f) =
             fieldDisposeCalls (fieldHeap s f) +
             (if f = fieldRow (inputHeap s this) ! first_named s this nm then 1 else 0)) \<and>
        (sourceBlock' (inputHeap s this) \<noteq> None \<longrightarrow> r = Inr ()))) \<and>
   ((\<forall>f \<in> set (fieldRow (inputHeap s this)). name (fieldHeap s f) \<noteq> Some nm) \<longrightarrow>
     removeField s this nm = (s, Inl FieldNotFound))"
  using removeField_found [of s this nm] removeField_missing [of s this nm] by blast

theorem removeField_first_match_witness:
  "(\<exists>s'. removeField example_world 0 ''B'' = (s', Inr ()) \<and>
      fieldRow (inputHeap s' 0) = [1] \<and>
      fieldDisposeCalls (fieldHeap s' 2) = 1 \<and> fieldDisposeCalls (fieldHeap s' 1) = 0) \<and>
   removeField example_world 0 ''C'' = (example_world, Inl FieldNotFound)"
proof -
  have ex: "\<exists>f \<in> set (fieldRow (inputHeap example_world 0)).
              name (fieldHeap example_world f) = Some ''B''"
    by (simp add: example_defs)
  have no: "\<forall>f \<in> set (fieldRow (inputHeap example_world 0)).
              name (fieldHeap example_world f) \<noteq> Some ''C''"
    by (simp add: example_defs)
  have j: "first_named example_world 0 ''B'' = 1"
    by (simp add: first_named_def example_defs)
  have row: "fieldRow (inputHeap example_world 0) = [1, 2]"
    and sb: "sourceBlock' (inputHeap example_world 0) \<noteq> None"
    and calls: "fieldDisposeCalls (fieldHeap example_world 1) = 0"
      "fieldDisposeCalls (fieldHeap example_world 2) = 0"
    by (simp_all add: example_defs)
  from removeField_first_match [of example_world 0 "''B''"] ex
  obtain s' r where "removeField example_world 0 ''B'' = (s', r)"
    and "fieldRow (inputHeap s' 0) = take 1 [1, 2] @ drop (Suc 1) [1, 2]"
    and "\<forall>f. fieldDisposeCalls (fieldHeap s' f) =
             fieldDisposeCalls (fieldHeap example_world f) + (if f = [1, 2] ! 1 then 1 else 0)"
    and "r = Inr ()"
    unfolding j row using sb by auto
  then have "\<exists>s'. removeField example_world 0 ''B'' = (s', Inr ()) \<and>
      fieldRow (inputHeap s' 0) = [1] \<and>
      fieldDisposeCalls (fieldHeap s' 2) = 1 \<and> fieldDisposeCalls (fieldHeap s' 1) = 0"
    using calls by auto
  moreover from removeField_first_match [of example_world 0 "''C''"] no
  have "removeField example_world 0 ''C'' = (example_world, Inl FieldNotFound)" by blast
  ultimately show ?thesis by blast
qed

section \<open>Inserting a field with its prefix and suffix\<close>










lemma rerender_inputHeap:
  "inputHeap (if c then Block_bumpNeighbours (Block_render s b) b else s) = inputHeap s"
  by (simp add: Block_bumpNeighbours_def Block_render_def)

lemma bind_field_inputHeap:
  "inputHeap (set_name (if c then Field_init (Field_setSourceBlock s f b) f
                         else Field_setSourceBlock s f b) f nm) = inputHeap s"
  by (simp add: set_name_def Field_init_def Field_setSourceBlock_def)




lemma fields_kept_trans:
  assumes "fields_kept this s s'" and "fields_kept this s' s''"
  shows "fields_kept this s s''"
proof -
  have "nextField s \<le> nextField s'" "nextField s' \<le> nextField s''"
    using assms by (simp_all add: fields_kept_def)
  moreover have "prefixField (fieldHeap s'' g) = prefixField (fieldHeap s g) \<and>
        suffixField (fieldHeap s'' g) = suffixField (fieldHeap s g) \<and>
        labelText (fieldHeap s'' g) = labelText (fieldHeap s g)" if "g < nextField s" for g
  proof -
    from that \<open>nextField s \<le> nextField s'\<close> have "g < nextField s'" by simp
    with that assms show ?thesis by (simp add: fields_kept_def)
  qed
  moreover have "prefixField (fieldHeap s'' g) = FUndefined \<and> suffixField (fieldHeap s'' g) = FUndefined"
    if "nextField s \<le> g" "g < nextField s''" for g
  proof (cases "g < nextField s'")
    case True
    with that assms show ?thesis by (simp add: fields_kept_def)
  next
    case False
    with that assms show ?thesis by (simp add: fields_kept_def)
  qed
  moreover have "sourceBlock' (inputHeap s'' this) = sourceBlock' (inputHeap s this)"
    using assms by (simp add: fields_kept_def)
  ultimately show ?thesis by (simp add: fields_kept_def)
qed


lemma bind_field_kept:
  "fields_kept this s (set_name (if c then Field_init (Field_setSourceBlock s f b) f
                         else Field_setSourceBlock s f b) f nm)"
  by (auto simp add: set_name_def Field_init_def Field_setSourceBlock_def fields_kept_def)

lemma set_fieldRow_kept: "fields_kept this s (set_fieldRow s this row)"
  by (auto simp add: set_fieldRow_def fields_kept_def)

lemma rerender_kept:
  "fields_kept this s (if c then Block_bumpNeighbours (Block_render s b) b else s)"
  by (auto simp add: Block_bumpNeighbours_def Block_render_def fields_kept_def)



lemma entry_for_kept:
  assumes "entry_for s1 s2 a e" and "fields_kept this s0 s1" and "fields_kept this s2 s3"
  shows "entry_for s0 s3 a e"
  using assms unfolding entry_for_def fields_kept_def
  by (cases a) auto


lemma bind_field_pointers:
  "prefixField (fieldHeap (set_name (if c then Field_init (Field_setSourceBlock s f b) f
                         else Field_setSourceBlock s f b) f nm) h) = prefixField (fieldHeap s h) \<and>
   suffixField (fieldHeap (set_name (if c then Field_init (Field_setSourceBlock s f b) f
                         else Field_setSourceBlock s f b) f nm) h) = suffixField (fieldHeap s h)"
  by (simp add: set_name_def Field_init_def Field_setSourceBlock_def)


text \<open>
  \<^bold>\<open>The row.\<close> A returning call at index \<open>k\<close> puts one block of entries into the row at
  \<open>k\<close> and returns the index after the block. The entries that the sub-calls put in have
  the name \<^verbatim>\<open>undefined\<close>.
\<close>

lemma splice_insert_at:
  "j \<le> length xs \<Longrightarrow> splice_insert xs (Num (int j)) x = take j xs @ x # drop j xs"
  by (simp add: splice_insert_def min_def)

lemma take_spliced:
  "k \<le> length xs \<Longrightarrow> take (k + length ys) (take k xs @ ys @ zs) = take k xs @ ys"
  by (simp add: min_def)

lemma drop_spliced:
  "k \<le> length xs \<Longrightarrow> drop (k + length ys) (take k xs @ ys @ zs) = zs"
  by (simp add: min_def)




lemma allocated_kept: "allocated s a \<Longrightarrow> fields_kept this s s' \<Longrightarrow> allocated s' a"
  unfolding allocated_def fields_kept_def by auto












text \<open>
  \<^bold>\<open>Enough depth.\<close> A string, or a field without prefix and suffix, is inserted by a call
  of any depth; a field whose prefix and suffix are of that kind by a call that may nest
  once more.
\<close>

lemma insert_leaf:
  assumes sb: "sourceBlock' (inputHeap s this) = Some b"
    and k: "k \<le> length (fieldRow (inputHeap s this))"
    and tr: "truthy a"
    and leaf: "\<And>g. a = FField g \<Longrightarrow>
                 \<not> truthy (prefixField (fieldHeap s g)) \<and> \<not> truthy (suffixField (fieldHeap s g))"
  shows "\<exists>s' e. insertFieldAt (Suc d) s this (Num (int k)) a nm
                  = (s', Inr (RetIndex (Num (int (Suc k))))) \<and>
           fieldRow (inputHeap s' this) =
             take k (fieldRow (inputHeap s this)) @ e # drop k (fieldRow (inputHeap s this)) \<and>
           entry_for s s' a e \<and> fields_kept this s s' \<and> name (fieldHeap s' e) = nm"
proof (cases a)
  case FUndefined
  with tr show ?thesis by simp
next
  case (FString t)
  with sb k tr show ?thesis
    by (auto simp add: insertFieldAt.simps(2) Let_def new_FieldLabel_def Field_setSourceBlock_def
        Field_init_def set_name_def set_fieldRow_def splice_insert_at Block_render_def
        Block_bumpNeighbours_def entry_for_def fields_kept_def)
next
  case (FField g)
  with sb k tr leaf [OF FField] show ?thesis
    by (auto simp add: insertFieldAt.simps(2) Let_def Field_setSourceBlock_def
        Field_init_def set_name_def set_fieldRow_def splice_insert_at Block_render_def
        Block_bumpNeighbours_def entry_for_def fields_kept_def)
qed

lemma insertFieldAt_inserted:
  assumes inb: "\<not> index_out_of_bounds idx (length (fieldRow (inputHeap s this)))"
    and sb: "sourceBlock' (inputHeap s this) = Some b"
    and pre: "(if truthy (prefixField (fieldHeap s3 f))
               then insertFieldAt d s3 this idx (prefixField (fieldHeap s3 f)) None
               else (s3, Inr (RetIndex idx))) = (s4, Inr r1)"
    and suf: "(if truthy (suffixField (fieldHeap s5 f))
               then insertFieldAt d s5 this (increment (to_number r1)) (suffixField (fieldHeap s5 f)) None
               else (s5, Inr (RetIndex (increment (to_number r1))))) = (s6, Inr r)"
    and sb6: "sourceBlock' (inputHeap s6 this) = Some b'"
    and s3: "s3 = set_name (if rendered (blockHeap s b)
                            then Field_init (Field_setSourceBlock s f (Some b)) f
                            else Field_setSourceBlock s f (Some b)) f nm"
    and s5: "s5 = set_fieldRow s4 this (splice_insert (fieldRow (inputHeap s4 this)) (to_number r1) f)"
  shows "insertFieldAt (Suc d) s this idx (FField f) nm =
           (if rendered (blockHeap s6 b') then Block_bumpNeighbours (Block_render s6 b') b' else s6,
            Inr r)"
proof -
  have sb1: "sourceBlock' (inputHeap (Field_setSourceBlock s f (Some b)) this) = Some b"
    using sb by (simp add: Field_setSourceBlock_def)
  have r1: "rendered (blockHeap (Field_setSourceBlock s f (Some b)) b) = rendered (blockHeap s b)"
    by (simp add: Field_setSourceBlock_def)
  have s3': "set_name (if rendered (blockHeap s b)
                       then Field_init (Field_setSourceBlock s f (Some b)) f
                       else Field_setSourceBlock s f (Some b)) f nm = s3"
    by (simp add: s3)
  have s5': "set_fieldRow s4 this (splice_insert (fieldRow (inputHeap s4 this)) (to_number r1) f) = s5"
    by (simp add: s5)
  show ?thesis
    apply (subst insertFieldAt.simps(2))
    apply (simp only: inb if_False truthy.simps simp_thms generate_label.simps prod.case
        field_arg.case Let_def sb sb1 r1 option.case s3' pre sum.case s5' suf sb6)
    apply (simp split: if_splits)
    done
qed

lemma insert_prefix_field_suffix:
  assumes sb: "sourceBlock' (inputHeap s this) = Some b"
    and k: "k \<le> length (fieldRow (inputHeap s this))"
    and f: "f < nextField s"
    and pre: "truthy (prefixField (fieldHeap s f))"
    and suf: "truthy (suffixField (fieldHeap s f))"
    and pleaf: "\<And>p. prefixField (fieldHeap s f) = FField p \<Longrightarrow>
        p < nextField s \<and> \<not> truthy (prefixField (fieldHeap s p)) \<and>
        \<not> truthy (suffixField (fieldHeap s p))"
    and qleaf: "\<And>q. suffixField (fieldHeap s f) = FField q \<Longrightarrow>
        q < nextField s \<and> \<not> truthy (prefixField (fieldHeap s q)) \<and>
        \<not> truthy (suffixField (fieldHeap s q))"
  shows "\<exists>s' p q.
           insertFieldAt (Suc (Suc d)) s this (Num (int k)) (FField f) nm
             = (s', Inr (RetIndex (Num (int (k + 3))))) \<and>
           fieldRow (inputHeap s' this) =
             take k (fieldRow (inputHeap s this)) @ [p, f, q] @ drop k (fieldRow (inputHeap s this)) \<and>
           entry_for s s' (prefixField (fieldHeap s f)) p \<and>
           entry_for s s' (suffixField (fieldHeap s f)) q"
proof -
  let ?row = "fieldRow (inputHeap s this)"
  define s3 where "s3 = set_name (if rendered (blockHeap s b)
                            then Field_init (Field_setSourceBlock s f (Some b)) f
                            else Field_setSourceBlock s f (Some b)) f nm"
  have kept3: "fields_kept this s s3" unfolding s3_def by (rule bind_field_kept)
  have heap3: "inputHeap s3 = inputHeap s" unfolding s3_def by (rule bind_field_inputHeap)
  have ptr3: "prefixField (fieldHeap s3 h) = prefixField (fieldHeap s h)"
    "suffixField (fieldHeap s3 h) = suffixField (fieldHeap s h)" for h
    unfolding s3_def by (simp_all add: bind_field_pointers)
  have sb3: "sourceBlock' (inputHeap s3 this) = Some b" using sb heap3 by simp
  have k3: "k \<le> length (fieldRow (inputHeap s3 this))" using k heap3 by simp
  have tr3: "truthy (prefixField (fieldHeap s3 f))" using pre ptr3 by simp
  have leaf3: "\<not> truthy (prefixField (fieldHeap s3 g)) \<and> \<not> truthy (suffixField (fieldHeap s3 g))"
    if "prefixField (fieldHeap s3 f) = FField g" for g
    using that pleaf [of g] ptr3 by simp
  from insert_leaf [OF sb3 k3 tr3 leaf3, of d None] obtain s4 p where
    call1: "insertFieldAt (Suc d) s3 this (Num (int k)) (prefixField (fieldHeap s3 f)) None
              = (s4, Inr (RetIndex (Num (int (Suc k)))))"
    and row4: "fieldRow (inputHeap s4 this) = take k ?row @ p # drop k ?row"
    and ent1: "entry_for s3 s4 (prefixField (fieldHeap s3 f)) p"
    and kept34: "fields_kept this s3 s4"
    unfolding heap3 by blast
  define s5 where "s5 = set_fieldRow s4 this
      (splice_insert (fieldRow (inputHeap s4 this)) (to_number (RetIndex (Num (int (Suc k))))) f)"
  have kept45: "fields_kept this s4 s5" unfolding s5_def by (rule set_fieldRow_kept)
  have kept5: "fields_kept this s s5"
    using kept3 kept34 kept45 by (blast intro: fields_kept_trans)
  have len4: "Suc k \<le> length (fieldRow (inputHeap s4 this))" using k row4 by simp
  have row5: "fieldRow (inputHeap s5 this) = take k ?row @ [p, f] @ drop k ?row"
    unfolding s5_def using splice_insert_at [OF len4, of f] k
    by (simp add: set_fieldRow_def row4 min_def)
  have sb5: "sourceBlock' (inputHeap s5 this) = Some b"
    using kept5 sb by (simp add: fields_kept_def)
  have k5: "Suc (Suc k) \<le> length (fieldRow (inputHeap s5 this))" using k row5 by simp
  have ptr5: "prefixField (fieldHeap s5 h) = prefixField (fieldHeap s h)"
    "suffixField (fieldHeap s5 h) = suffixField (fieldHeap s h)" if "h < nextField s" for h
    using kept5 that by (simp_all add: fields_kept_def)
  have tr5: "truthy (suffixField (fieldHeap s5 f))" using suf ptr5 [OF f] by simp
  have leaf5: "\<not> truthy (prefixField (fieldHeap s5 g)) \<and> \<not> truthy (suffixField (fieldHeap s5 g))"
    if "suffixField (fieldHeap s5 f) = FField g" for g
  proof -
    from that ptr5 [OF f] have "suffixField (fieldHeap s f) = FField g" by simp
    from qleaf [OF this] ptr5 [of g] show ?thesis by simp
  qed
  from insert_leaf [OF sb5 k5 tr5 leaf5, of d None] obtain s6 q where
    call2: "insertFieldAt (Suc d) s5 this (Num (int (Suc (Suc k)))) (suffixField (fieldHeap s5 f)) None
              = (s6, Inr (RetIndex (Num (int (Suc (Suc (Suc k)))))))"
    and row6: "fieldRow (inputHeap s6 this) =
                 take (Suc (Suc k)) (fieldRow (inputHeap s5 this)) @ q #
                 drop (Suc (Suc k)) (fieldRow (inputHeap s5 this))"
    and ent2: "entry_for s5 s6 (suffixField (fieldHeap s5 f)) q"
    and kept56: "fields_kept this s5 s6"
    by blast
  have sb6: "sourceBlock' (inputHeap s6 this) = Some b"
    using kept56 sb5 by (simp add: fields_kept_def)
  define s' where "s' = (if rendered (blockHeap s6 b)
                         then Block_bumpNeighbours (Block_render s6 b) b else s6)"
  have kept6': "fields_kept this s6 s'" unfolding s'_def by (rule rerender_kept)
  have inb: "\<not> index_out_of_bounds (Num (int k)) (length ?row)" using k by simp
  have pre_eq: "(if truthy (prefixField (fieldHeap s3 f))
               then insertFieldAt (Suc d) s3 this (Num (int k)) (prefixField (fieldHeap s3 f)) None
               else (s3, Inr (RetIndex (Num (int k))))) = (s4, Inr (RetIndex (Num (int (Suc k)))))"
    using tr3 call1 by simp
  have suf_eq: "(if truthy (suffixField (fieldHeap s5 f))
               then insertFieldAt (Suc d) s5 this (increment (to_number (RetIndex (Num (int (Suc k))))))
                      (suffixField (fieldHeap s5 f)) None
               else (s5, Inr (RetIndex (increment (to_number (RetIndex (Num (int (Suc k))))))))) =
          (s6, Inr (RetIndex (Num (int (Suc (Suc (Suc k)))))))"
    using tr5 call2 by (simp add: add.commute)
  have result: "insertFieldAt (Suc (Suc d)) s this (Num (int k)) (FField f) nm =
          (s', Inr (RetIndex (Num (int (Suc (Suc (Suc k)))))))"
    unfolding s'_def
    by (rule insertFieldAt_inserted [OF inb sb pre_eq suf_eq sb6 s3_def s5_def])
  have row': "fieldRow (inputHeap s' this) = take k ?row @ [p, f, q] @ drop k ?row"
  proof -
    have "inputHeap s' = inputHeap s6" unfolding s'_def by (rule rerender_inputHeap)
    moreover have "take (Suc (Suc k)) (take k ?row @ [p, f] @ drop k ?row) = take k ?row @ [p, f]"
      using take_spliced [OF k, of "[p, f]" "drop k ?row"] by simp
    moreover have "drop (Suc (Suc k)) (take k ?row @ [p, f] @ drop k ?row) = drop k ?row"
      using drop_spliced [OF k, of "[p, f]" "drop k ?row"] by simp
    ultimately show ?thesis using row6 row5 by simp
  qed
  have e1: "entry_for s s' (prefixField (fieldHeap s f)) p"
  proof -
    have "fields_kept this s4 s'"
      using kept45 kept56 kept6' by (blast intro: fields_kept_trans)
    with ent1 kept3 have "entry_for s s' (prefixField (fieldHeap s3 f)) p"
      by (rule entry_for_kept)
    then show ?thesis by (simp add: ptr3)
  qed
  have e2: "entry_for s s' (suffixField (fieldHeap s f)) q"
  proof -
    from ent2 kept5 kept6' have "entry_for s s' (suffixField (fieldHeap s5 f)) q"
      by (rule entry_for_kept)
    then show ?thesis by (simp add: ptr5 [OF f])
  qed
  from result row' e1 e2 show ?thesis
    by (intro exI [of _ s'] exI [of _ p] exI [of _ q]) (simp add: numeral_3_eq_3)
qed

text \<open>
  On an Input whose \<^verbatim>\<open>sourceBlock_\<close> is set, for a row of length \<open>n\<close> and an index
  \<open>k \<le> n\<close>: inserting an existing Field object whose prefix and suffix are both truthy,
  and are strings or existing Field objects without prefix and suffix of their own,
  returns \<open>k + 3\<close> (the call may nest two deep) and leaves a row of length \<open>n + 3\<close> that is
  the old row with three entries put in at \<open>k\<close>: the entry for the prefix, the field, the
  entry for the suffix. The entry for a string is the label created from it.
\<close>

lemma insertFieldAt_prefix_suffix:
  assumes "sourceBlock' (inputHeap s this) = Some b"
    and "k \<le> length (fieldRow (inputHeap s this))"
    and "f < nextField s"
    and "truthy (prefixField (fieldHeap s f))"
    and "truthy (suffixField (fieldHeap s f))"
    and "\<forall>p. prefixField (fieldHeap s f) = FField p \<longrightarrow>
           p < nextField s \<and> \<not> truthy (prefixField (fieldHeap s p)) \<and>
           \<not> truthy (suffixField (fieldHeap s p))"
    and "\<forall>q. suffixField (fieldHeap s f) = FField q \<longrightarrow>
           q < nextField s \<and> \<not> truthy (prefixField (fieldHeap s q)) \<and>
           \<not> truthy (suffixField (fieldHeap s q))"
  shows "\<exists>s' p q.
           insertFieldAt (Suc (Suc d)) s this (Num (int k)) (FField f) nm
             = (s', Inr (RetIndex (Num (int k + 3)))) \<and>
           length (fieldRow (inputHeap s' this)) = length (fieldRow (inputHeap s this)) + 3 \<and>
           fieldRow (inputHeap s' this) ! k = p \<and>
           fieldRow (inputHeap s' this) ! (k + 1) = f \<and>
           fieldRow (inputHeap s' this) ! (k + 2) = q \<and>
           fieldRow (inputHeap s' this) =
             take k (fieldRow (inputHeap s this)) @ [p, f, q] @ drop k (fieldRow (inputHeap s this)) \<and>
           entry_for s s' (prefixField (fieldHeap s f)) p \<and>
           entry_for s s' (suffixField (fieldHeap s f)) q"
proof -
  from insert_prefix_field_suffix [of s this b k f d nm] assms
  obtain s' p q where
    res: "insertFieldAt (Suc (Suc d)) s this (Num (int k)) (FField f) nm
             = (s', Inr (RetIndex (Num (int (k + 3)))))"
    and row: "fieldRow (inputHeap s' this) =
             take k (fieldRow (inputHeap s this)) @ [p, f, q] @ drop k (fieldRow (inputHeap s this))"
    and ent: "entry_for s s' (prefixField (fieldHeap s f)) p"
      "entry_for s s' (suffixField (fieldHeap s f)) q"
    by blast
  from assms(2) have lt: "length (take k (fieldRow (inputHeap s this))) = k" by simp
  have "length (fieldRow (inputHeap s' this)) = length (fieldRow (inputHeap s this)) + 3"
    unfolding row using assms(2) by simp
  moreover have "fieldRow (inputHeap s' this) ! k = p"
    "fieldRow (inputHeap s' this) ! (k + 1) = f"
    "fieldRow (inputHeap s' this) ! (k + 2) = q"
    unfolding row using lt by (simp_all add: nth_append)
  ultimately show ?thesis using res row ent by auto
qed

lemma insertFieldAt_prefix_suffix_example:
  "\<exists>s' p. insertFieldAt (Suc (Suc 0)) example_world 0 (Num 1) (FField 3) (Some ''ANGLE'')
             = (s', Inr (RetIndex (Num 4))) \<and>
          fieldRow (inputHeap s' 0) = [1, p, 3, 4, 2] \<and>
          labelText (fieldHeap s' p) = ''rotate''"
proof -
  have "\<exists>s' p q.
           insertFieldAt (Suc (Suc 0)) example_world 0 (Num (int 1)) (FField 3) (Some ''ANGLE'')
             = (s', Inr (RetIndex (Num (int 1 + 3)))) \<and>
           length (fieldRow (inputHeap s' 0)) = length (fieldRow (inputHeap example_world 0)) + 3 \<and>
           fieldRow (inputHeap s' 0) ! 1 = p \<and>
           fieldRow (inputHeap s' 0) ! (1 + 1) = 3 \<and>
           fieldRow (inputHeap s' 0) ! (1 + 2) = q \<and>
           fieldRow (inputHeap s' 0) =
             take 1 (fieldRow (inputHeap example_world 0)) @ [p, 3, q] @
             drop 1 (fieldRow (inputHeap example_world 0)) \<and>
           entry_for example_world s' (prefixField (fieldHeap example_world 3)) p \<and>
           entry_for example_world s' (suffixField (fieldHeap example_world 3)) q"
    by (rule insertFieldAt_prefix_suffix [of example_world 0 0 1 3 0 "Some ''ANGLE''"])
      (simp_all add: example_defs)
  then show ?thesis
    by (auto simp add: example_defs entry_for_def)
qed

text \<open>
  C3. The claim: for every row of length \<open>n\<close> and every index within it, inserting a field
  that declares a prefix and a suffix gives a row of length \<open>n + 3\<close> and returns the index
  plus 3. The methods read the owning block as \<^verbatim>\<open>this.sourceBlock_\<close>, but the constructor
  stores it as \<^verbatim>\<open>this.sourceBlock\<close> and nothing assigns \<^verbatim>\<open>sourceBlock_\<close> before
  \<^verbatim>\<open>dispose\<close>. So on every Input that the constructor has built (its row is empty, the
  only index is 0) inserting a Field object throws a TypeError at
  \<^verbatim>\<open>this.sourceBlock_.rendered\<close>: nothing is inserted and nothing is returned.
\<close>

theorem insertFieldAt_constructed_throws:
  assumes "Input_new type name0 block c = Inr i" and "inputHeap s this = i"
  shows "fieldRow (inputHeap s this) = [] \<and>
         (\<exists>s'. insertFieldAt (Suc d) s this (Num 0) (FField f) nm = (s', Inl TypeError) \<and>
               fieldRow (inputHeap s' this) = [])"
proof -
  from assms(1) have "fieldRow i = []" and "sourceBlock' i = None"
    by (auto simp add: Input_new_def split: if_splits)
  with assms(2) have row: "fieldRow (inputHeap s this) = []"
    and sb: "sourceBlock' (inputHeap s this) = None"
    by simp_all
  then show ?thesis
    by (simp add: insertFieldAt.simps(2) Let_def Field_setSourceBlock_def)
qed

theorem insertFieldAt_constructed_throws_witness:
  "\<exists>i. Input_new ValueInput ''VALUE'' 0 (Some 0) = Inr i \<and>
      truthy (prefixField (fieldHeap example_world 3)) \<and>
      truthy (suffixField (fieldHeap example_world 3)) \<and>
      (\<exists>s'. insertFieldAt (Suc (Suc 0))
               (example_world\<lparr>inputHeap := (inputHeap example_world)(2 := i)\<rparr>) 2 (Num 0)
               (FField 3) None = (s', Inl TypeError) \<and>
            fieldRow (inputHeap s' 2) = [])"
proof -
  obtain i where i: "Input_new ValueInput ''VALUE'' 0 (Some 0) = Inr i"
    by (simp add: Input_new_def)
  have "inputHeap (example_world\<lparr>inputHeap := (inputHeap example_world)(2 := i)\<rparr>) 2 = i"
    by simp
  from insertFieldAt_constructed_throws [OF i this, of "Suc 0" 3 None]
  have "\<exists>s'. insertFieldAt (Suc (Suc 0))
               (example_world\<lparr>inputHeap := (inputHeap example_world)(2 := i)\<rparr>) 2 (Num 0)
               (FField 3) None = (s', Inl TypeError) \<and>
            fieldRow (inputHeap s' 2) = []"
    by simp
  moreover have "truthy (prefixField (fieldHeap example_world 3))"
    "truthy (suffixField (fieldHeap example_world 3))"
    by (simp_all add: example_defs)
  ultimately show ?thesis using i by blast
qed









end
